theory Spec2Isabelle
  imports Main "HOL-Library.Sublist" "HOL-Library.Multiset"
begin

section \<open>Values of the Python program\<close>

text \<open>
  A request body is whatever \<^verbatim>\<open>request.get_json()\<close> returns: any JSON value. An object
  is the parsed dict, kept as an association list that is read with \<open>map_of\<close>. Numbers
  are the integers; a Python \<^verbatim>\<open>str\<close> is kept as the list of its UTF-8 bytes (nothing in
  the program counts characters). A request whose body does not parse is answered by the
  framework and never reaches a handler.
\<close>

datatype jval =
    JNull
  | JBool bool
  | JNum int
  | JStr string
  | JArr "jval list"
  | JObj "(string \<times> jval) list"

datatype pyerror =
    TypeError | KeyError string | AttributeError | ValueError | ArgumentError | StoreError

text \<open>Truthiness, as \<^verbatim>\<open>if x:\<close> and \<^verbatim>\<open>not x\<close> test it.\<close>

fun py_bool :: "jval \<Rightarrow> bool" where
  "py_bool JNull = False"
| "py_bool (JBool b) = b"
| "py_bool (JNum n) = (n \<noteq> 0)"
| "py_bool (JStr s) = (s \<noteq> [])"
| "py_bool (JArr xs) = (xs \<noteq> [])"
| "py_bool (JObj kvs) = (kvs \<noteq> [])"

text \<open>
  \<^verbatim>\<open>key in data\<close> for a string key: a key of a dict, an element of a list, a substring
  of a string, and a TypeError on None, a bool or a number.
\<close>

fun py_in :: "string \<Rightarrow> jval \<Rightarrow> pyerror + bool" where
  "py_in k (JObj kvs) = Inr (map_of kvs k \<noteq> None)"
| "py_in k (JArr xs) = Inr (JStr k \<in> set xs)"
| "py_in k (JStr s) = Inr (sublist k s)"
| "py_in k JNull = Inl TypeError"
| "py_in k (JBool b) = Inl TypeError"
| "py_in k (JNum n) = Inl TypeError"

text \<open>\<^verbatim>\<open>data[key]\<close> for a string key: KeyError on a dict without it, TypeError elsewhere.\<close>

fun py_getitem :: "jval \<Rightarrow> string \<Rightarrow> pyerror + jval" where
  "py_getitem (JObj kvs) k =
     (case map_of kvs k of None \<Rightarrow> Inl (KeyError k) | Some v \<Rightarrow> Inr v)"
| "py_getitem JNull k = Inl TypeError"
| "py_getitem (JBool b) k = Inl TypeError"
| "py_getitem (JNum n) k = Inl TypeError"
| "py_getitem (JStr s) k = Inl TypeError"
| "py_getitem (JArr xs) k = Inl TypeError"

text \<open>\<^verbatim>\<open>data.get(key, default)\<close>: only a dict has the method.\<close>

fun py_get :: "jval \<Rightarrow> string \<Rightarrow> jval \<Rightarrow> pyerror + jval" where
  "py_get (JObj kvs) k dflt =
     Inr (case map_of kvs k of None \<Rightarrow> dflt | Some v \<Rightarrow> v)"
| "py_get JNull k dflt = Inl AttributeError"
| "py_get (JBool b) k dflt = Inl AttributeError"
| "py_get (JNum n) k dflt = Inl AttributeError"
| "py_get (JStr s) k dflt = Inl AttributeError"
| "py_get (JArr xs) k dflt = Inl AttributeError"

text \<open>Sequencing of statements that may raise: the first exception ends the block.\<close>

definition and_then :: "pyerror + 'a \<Rightarrow> ('a \<Rightarrow> pyerror + 'b) \<Rightarrow> pyerror + 'b" where
  "and_then m f = (case m of Inl e \<Rightarrow> Inl e | Inr x \<Rightarrow> f x)"


section \<open>Data model\<close>

text \<open>
  The model class \<^verbatim>\<open>Solicitud\<close>. An attribute holds the Python object last assigned to
  it, so the columns written from a request body have type \<open>jval\<close>; \<^verbatim>\<open>dependencia\<close> is
  only ever written from the session and is a string. \<^verbatim>\<open>fecha_creacion\<close> is a point in
  time, kept as a count of microseconds. A row of the table is the object as the program
  left it: what the engine makes of a value that is not a string when it stores it (sqlite
  keeps the number 5 in a text column as the text 5) is not modelled.
\<close>

record solicitud =
  id' :: int
  cedula :: jval
  nombre :: jval
  dependencia :: string
  tipo :: jval
  descripcion :: jval
  departamento_destino :: jval
  fecha_creacion :: int
  status :: jval
  quien_atendio :: jval
  que_hizo :: jval

text \<open>
  The Flask session: the three keys \<^verbatim>\<open>login\<close> stores, each absent after \<^verbatim>\<open>clear\<close>.
  \<^verbatim>\<open>session.get('departamento')\<close> is \<open>departamento sess\<close>, and
  \<^verbatim>\<open>not departamento_del_usuario\<close> holds when the key is absent or holds the empty string.
\<close>

record session =
  user_id :: "int option"
  departamento :: "string option"
  username :: "string option"

text \<open>
  The table of requests is the list of its rows in insertion order. What the database
  engine decides is a parameter: whether a commit of a pending change succeeds, the order
  an \<^verbatim>\<open>ORDER BY fecha_creacion DESC\<close> gives to a result, the \<^verbatim>\<open>IN\<close> test of a row's id
  against the value sent as \<^verbatim>\<open>ids\<close> (\<open>None\<close> when \<^verbatim>\<open>Solicitud.id.in_(ids)\<close> raises on
  that value), the primary key given to a new row and the clock that stamps it.
\<close>

datatype change = Insert solicitud | Update solicitud | Delete solicitud

record db =
  commit_ok :: "change \<Rightarrow> bool"
  order_by_fecha_desc :: "solicitud list \<Rightarrow> solicitud list"
  id_in :: "jval \<Rightarrow> (int \<Rightarrow> bool) option"
  next_id :: "solicitud list \<Rightarrow> int"
  utcnow :: int

text \<open>
  What \<^verbatim>\<open>ORDER BY fecha_creacion DESC\<close> promises: the same rows, none before a row with
  a later \<^verbatim>\<open>fecha_creacion\<close>. The query names no second key.
\<close>

definition order_by_spec :: "(solicitud list \<Rightarrow> solicitud list) \<Rightarrow> bool" where
  "order_by_spec ob \<longleftrightarrow>
     (\<forall>rows. mset (ob rows) = mset rows \<and>
             sorted_wrt (\<lambda>a b. fecha_creacion b \<le> fecha_creacion a) (ob rows))"


section \<open>Responses\<close>

text \<open>
  Drawing operations sent to the canvas of the report, in the order they are issued.
  Coordinates are in points on a letter page (612 by 792); every number the program
  computes with them is a whole number.
\<close>

datatype draw =
    SetFont string int
  | DrawString int int string
  | DrawParagraph jval int int
  | Line int int int int
  | ShowPage

datatype body =
    Message string
  | MessageError string pyerror
  | Rows "solicitud list"
  | File "draw list"

datatype response = Response nat body | Uncaught pyerror

definition no_autorizado :: response where
  "no_autorizado = Response 401 (Message ''No autorizado'')"

definition not_found :: response where
  "not_found = Response 404 (Message ''Not Found'')"

definition sin_permiso :: response where
  "sin_permiso = Response 403 (Message ''No tienes permiso para modificar esta tarea.'')"


section \<open>Reading and writing rows\<close>

text \<open>\<^verbatim>\<open>Solicitud.query.get_or_404(id)\<close>: the row with this primary key, if there is one.\<close>

definition get_or_404 :: "solicitud list \<Rightarrow> int \<Rightarrow> solicitud option" where
  "get_or_404 store i = find (\<lambda>s. id' s = i) store"

text \<open>A committed update writes the changed object over its row.\<close>

fun write_row :: "solicitud \<Rightarrow> solicitud list \<Rightarrow> solicitud list" where
  "write_row s' [] = []"
| "write_row s' (x # xs) = (if id' x = id' s' then s' # xs else x # write_row s' xs)"

text \<open>A committed delete removes the row.\<close>

fun delete_row :: "int \<Rightarrow> solicitud list \<Rightarrow> solicitud list" where
  "delete_row i [] = []"
| "delete_row i (x # xs) = (if id' x = i then xs else x # delete_row i xs)"


section \<open>The update endpoint\<close>

text \<open>\<^verbatim>\<open>if key in data: solicitud.col = data[key]\<close>\<close>

definition assign_if_present ::
  "string \<Rightarrow> (jval \<Rightarrow> solicitud \<Rightarrow> solicitud) \<Rightarrow> jval \<Rightarrow> solicitud \<Rightarrow> pyerror + solicitud" where
  "assign_if_present k setter data s =
     and_then (py_in k data) (\<lambda>present.
       if present then and_then (py_getitem data k) (\<lambda>v. Inr (setter v s))
       else Inr s)"

text \<open>The branch of the sending department.\<close>

definition emisor_fields :: "jval \<Rightarrow> solicitud \<Rightarrow> pyerror + solicitud" where
  "emisor_fields data s =
     and_then (assign_if_present ''descripcion'' (\<lambda>v r. r\<lparr>descripcion := v\<rparr>) data s)
       (assign_if_present ''departamento_destino'' (\<lambda>v r. r\<lparr>departamento_destino := v\<rparr>) data)"

text \<open>The branch of the receiving department; the status travels under the key \<^verbatim>\<open>estado\<close>.\<close>

definition receptor_fields :: "jval \<Rightarrow> solicitud \<Rightarrow> pyerror + solicitud" where
  "receptor_fields data s =
     and_then (assign_if_present ''estado'' (\<lambda>v r. r\<lparr>status := v\<rparr>) data s) (\<lambda>s1.
     and_then (assign_if_present ''quien_atendio'' (\<lambda>v r. r\<lparr>quien_atendio := v\<rparr>) data s1)
       (assign_if_present ''que_hizo'' (\<lambda>v r. r\<lparr>que_hizo := v\<rparr>) data))"

text \<open>
  The end of the \<^verbatim>\<open>try\<close> block: an exception raised by the assignments or by the commit
  is caught, the transaction is rolled back and the answer is 400; otherwise the row is
  written.
\<close>

definition commit_update ::
  "db \<Rightarrow> solicitud list \<Rightarrow> pyerror + solicitud \<Rightarrow> response \<times> solicitud list" where
  "commit_update d store r =
     (case r of
        Inl e \<Rightarrow> (Response 400 (MessageError ''Error al actualizar la tarea'' e), store)
      | Inr s' \<Rightarrow>
          if commit_ok d (Update s')
          then (Response 200 (Message (''Tarea actualizada con '' @ [CHR 0xC3, CHR 0xA9] @ ''xito'')),
                write_row s' store)
          else (Response 400 (MessageError ''Error al actualizar la tarea'' StoreError), store))"

definition update_solicitud ::
  "db \<Rightarrow> session \<Rightarrow> int \<Rightarrow> jval \<Rightarrow> solicitud list \<Rightarrow> response \<times> solicitud list" where
  "update_solicitud d sess i data store =
     (case get_or_404 store i of
        None \<Rightarrow> (not_found, store)
      | Some s \<Rightarrow>
          (case departamento sess of
             None \<Rightarrow> (no_autorizado, store)
           | Some dep \<Rightarrow>
               if dep = [] then (no_autorizado, store)
               else if dep = dependencia s
                 then commit_update d store (emisor_fields data s)
               else if JStr dep = departamento_destino s
                 then commit_update d store (receptor_fields data s)
               else (sin_permiso, store)))"


section \<open>Listing, creating and deleting\<close>

text \<open>
  The filter of the listing query: the rows sent to or sent by the department. The answer
  of \<^verbatim>\<open>get_solicitudes\<close> carries the rows in the order of the query; \<^verbatim>\<open>to_dict\<close> copies
  every column of a row (the status under the key \<^verbatim>\<open>estado\<close>) and is left out.
\<close>

definition visible_to :: "string \<Rightarrow> solicitud \<Rightarrow> bool" where
  "visible_to dep s \<longleftrightarrow> departamento_destino s = JStr dep \<or> dependencia s = dep"

definition get_solicitudes :: "db \<Rightarrow> session \<Rightarrow> solicitud list \<Rightarrow> response" where
  "get_solicitudes d sess store =
     (case departamento sess of
        None \<Rightarrow> no_autorizado
      | Some dep \<Rightarrow>
          if dep = [] then no_autorizado
          else Response 200 (Rows (order_by_fecha_desc d (filter (visible_to dep) store))))"

text \<open>
  The constructor call of \<^verbatim>\<open>create_solicitud\<close>: the five keys are read from the body in
  the order written, the first missing one raises. The row gets its primary key and its
  \<^verbatim>\<open>fecha_creacion\<close> default from the database; the two nullable columns start as None.
\<close>

definition new_solicitud :: "db \<Rightarrow> string \<Rightarrow> jval \<Rightarrow> solicitud list \<Rightarrow> pyerror + solicitud" where
  "new_solicitud d dep data store =
     and_then (py_getitem data ''cedula'') (\<lambda>ced.
     and_then (py_getitem data ''nombre'') (\<lambda>nom.
     and_then (py_getitem data ''tipo'') (\<lambda>tip.
     and_then (py_getitem data ''descripcion'') (\<lambda>des.
     and_then (py_getitem data ''departamento_destino'') (\<lambda>dst.
       Inr \<lparr>id' = next_id d store, cedula = ced, nombre = nom, dependencia = dep,
            tipo = tip, descripcion = des, departamento_destino = dst,
            fecha_creacion = utcnow d, status = JStr ''Recibida'',
            quien_atendio = JNull, que_hizo = JNull\<rparr>)))))"

definition create_solicitud ::
  "db \<Rightarrow> session \<Rightarrow> jval \<Rightarrow> solicitud list \<Rightarrow> response \<times> solicitud list" where
  "create_solicitud d sess data store =
     (case departamento sess of
        None \<Rightarrow> (no_autorizado, store)
      | Some dep \<Rightarrow>
          if dep = [] then (no_autorizado, store)
          else
            (case new_solicitud d dep data store of
               Inl e \<Rightarrow> (Response 400 (MessageError ''Error al crear la tarea'' e), store)
             | Inr s \<Rightarrow>
                 if commit_ok d (Insert s)
                 then (Response 201 (Message (''Tarea creada con '' @ [CHR 0xC3, CHR 0xA9] @ ''xito'')),
                       store @ [s])
                 else (Response 400 (MessageError ''Error al crear la tarea'' StoreError), store)))"

text \<open>\<^verbatim>\<open>delete_solicitud\<close> looks the row up and deletes it; it does not read the session.\<close>

definition delete_solicitud ::
  "db \<Rightarrow> session \<Rightarrow> int \<Rightarrow> solicitud list \<Rightarrow> response \<times> solicitud list" where
  "delete_solicitud d sess i store =
     (case get_or_404 store i of
        None \<Rightarrow> (not_found, store)
      | Some s \<Rightarrow>
          if commit_ok d (Delete s)
          then (Response 200 (Message (''Tarea eliminada con '' @ [CHR 0xC3, CHR 0xA9] @ ''xito'')),
                delete_row i store)
          else (Response 400 (MessageError ''Error al eliminar la tarea'' StoreError), store))"


section \<open>The report\<close>

text \<open>
  What the report takes from outside the program: the clock reading already formatted,
  \<^verbatim>\<open>strftime\<close> on a \<^verbatim>\<open>fecha_creacion\<close>, the text an f-string prints for a value, and the
  height \<^verbatim>\<open>wrapOn\<close> measures for a paragraph at the fixed width of 492 points.
  \<open>can_parse\<close> tells whether \<^verbatim>\<open>Paragraph(text, style)\<close> accepts a text; on a text it cannot
  parse (markup with an unclosed tag, for one) the constructor raises ValueError.
\<close>

record render_lib =
  now_str :: string
  strftime :: "int \<Rightarrow> string"
  str_of :: "jval \<Rightarrow> string"
  wrap_height :: "jval \<Rightarrow> int"
  can_parse :: "jval \<Rightarrow> bool"

text \<open>The canvas: what has been drawn so far, and the variable \<^verbatim>\<open>y_position\<close>.\<close>

record canvas =
  ops :: "draw list"
  y_position :: int

definition set_font :: "string \<Rightarrow> int \<Rightarrow> canvas \<Rightarrow> canvas" where
  "set_font f n c = c\<lparr>ops := ops c @ [SetFont f n]\<rparr>"

definition draw_string :: "int \<Rightarrow> string \<Rightarrow> canvas \<Rightarrow> canvas" where
  "draw_string x t c = c\<lparr>ops := ops c @ [DrawString x (y_position c) t]\<rparr>"

text \<open>\<^verbatim>\<open>p.wrapOn(c, 492, 792)\<close> then \<^verbatim>\<open>p.drawOn(c, x, y_position - height)\<close>.\<close>

definition draw_paragraph :: "render_lib \<Rightarrow> int \<Rightarrow> jval \<Rightarrow> canvas \<Rightarrow> canvas" where
  "draw_paragraph L x t c =
     c\<lparr>ops := ops c @ [DrawParagraph t x (y_position c - wrap_height L t)]\<rparr>"

definition draw_line :: "canvas \<Rightarrow> canvas" where
  "draw_line c = c\<lparr>ops := ops c @ [Line 50 (y_position c) 562 (y_position c)]\<rparr>"

definition show_page :: "canvas \<Rightarrow> canvas" where
  "show_page c = c\<lparr>ops := ops c @ [ShowPage]\<rparr>"

definition down :: "int \<Rightarrow> canvas \<Rightarrow> canvas" where
  "down n c = c\<lparr>y_position := y_position c - n\<rparr>"

definition set_y :: "int \<Rightarrow> canvas \<Rightarrow> canvas" where
  "set_y y c = c\<lparr>y_position := y\<rparr>"

text \<open>Statements run one after the other.\<close>

definition run :: "(canvas \<Rightarrow> canvas) list \<Rightarrow> canvas \<Rightarrow> canvas" where
  "run stmts c = fold (\<lambda>stmt. stmt) stmts c"

text \<open>The title of every page after the first.\<close>

definition continuacion :: string where
  "continuacion = ''Reporte de Solicitudes (Continuaci'' @ [CHR 0xC3, CHR 0xB3] @ ''n)''"

text \<open>The block at the head of the loop body: \<^verbatim>\<open>if y_position < 100:\<close> start a new page.\<close>

definition new_page_if_low :: "canvas \<Rightarrow> canvas" where
  "new_page_if_low c =
     (if y_position c < 100
      then run [show_page, set_y (792 - 50), set_font ''Helvetica-Bold'' 18,
                draw_string 50 continuacion,
                down 30] c
      else c)"

text \<open>The line that opens the block of a request.\<close>

definition header_text :: "render_lib \<Rightarrow> solicitud \<Rightarrow> string" where
  "header_text L s = ''Solicitud ID: '' @ str_of L (JNum (id' s))"

definition details :: "render_lib \<Rightarrow> solicitud \<Rightarrow> string list" where
  "details L s =
     [''C'' @ [CHR 0xC3, CHR 0xA9] @ ''dula: '' @ str_of L (cedula s),
      ''Nombre: '' @ str_of L (nombre s),
      ''Dpto. Emisor: '' @ dependencia s,
      ''Tipo: '' @ str_of L (tipo s),
      ''Dpto. Destino: '' @ str_of L (departamento_destino s),
      ''Fecha de Creaci'' @ [CHR 0xC3, CHR 0xB3] @ ''n: '' @ strftime L (fecha_creacion s),
      ''Estado: '' @ str_of L (status s),
      ''Quien Atendi'' @ [CHR 0xC3, CHR 0xB3] @ '': '' @
        (if py_bool (quien_atendio s) then str_of L (quien_atendio s) else ''N/A'')]"

text \<open>The rest of the loop body: header, the eight detail lines, description, resolution, rule.\<close>

definition draw_solicitud :: "render_lib \<Rightarrow> solicitud \<Rightarrow> canvas \<Rightarrow> canvas" where
  "draw_solicitud L s =
     run ([set_font ''Helvetica-Bold'' 12, draw_string 50 (header_text L s), down 15]
          @ concat (map (\<lambda>detail. [draw_string (50 + 10) detail, down 15]) (details L s))
          @ [down 5,
             set_font ''Helvetica-Bold'' 10,
             draw_string (50 + 10) (''Descripci'' @ [CHR 0xC3, CHR 0xB3] @ ''n:''),
             down 15,
             draw_paragraph L (50 + 10) (descripcion s),
             down (wrap_height L (descripcion s) + 10)]
          @ (if py_bool (que_hizo s)
             then [set_font ''Helvetica-Bold'' 10,
                   draw_string (50 + 10) (''Resoluci'' @ [CHR 0xC3, CHR 0xB3] @ ''n:''),
                   down 15,
                   draw_paragraph L (50 + 10) (que_hizo s),
                   down (wrap_height L (que_hizo s) + 20)]
             else [set_font ''Helvetica-Bold'' 10,
                   draw_string (50 + 10) (''Resoluci'' @ [CHR 0xC3, CHR 0xB3] @ ''n: N/A''),
                   down 20])
          @ [down 10, draw_line, down 20])"

text \<open>\<^verbatim>\<open>for solicitud in solicitudes:\<close>\<close>

fun draw_solicitudes :: "render_lib \<Rightarrow> solicitud list \<Rightarrow> canvas \<Rightarrow> canvas" where
  "draw_solicitudes L [] c = c"
| "draw_solicitudes L (s # ss) c = draw_solicitudes L ss (draw_solicitud L s (new_page_if_low c))"

text \<open>The title and the date line that open the first page.\<close>

definition first_page :: "render_lib \<Rightarrow> canvas" where
  "first_page L =
     run [set_font ''Helvetica-Bold'' 18,
          draw_string 50 ''Reporte de Solicitudes FUNDACITE'',
          down 30,
          set_font ''Helvetica'' 10,
          draw_string 50 (''Fecha de generaci'' @ [CHR 0xC3, CHR 0xB3] @ ''n: '' @ now_str L),
          down 20]
       \<lparr>ops = [], y_position = 792 - 50\<rparr>"

definition no_hay_solicitudes :: string where
  "no_hay_solicitudes = ''No hay solicitudes para mostrar en este reporte.''"

text \<open>Everything drawn from the creation of the canvas to \<^verbatim>\<open>c.save()\<close>.\<close>

definition render_report :: "render_lib \<Rightarrow> solicitud list \<Rightarrow> draw list" where
  "render_report L solicitudes =
     ops (if solicitudes = [] then draw_string 50 no_hay_solicitudes (first_page L)
          else draw_solicitudes L solicitudes (first_page L))"

text \<open>
  \<^verbatim>\<open>c.save()\<close> closes the page in progress, so a document has one page more than it has
  \<^verbatim>\<open>showPage\<close> calls.
\<close>

definition page_count :: "draw list \<Rightarrow> nat" where
  "page_count doc = Suc (length (filter (\<lambda>op. op = ShowPage) doc))"


text \<open>
  The head of \<^verbatim>\<open>export_pdf\<close>: which rows go into the report. The two \<^verbatim>\<open>data.get\<close> calls
  and the query are outside any \<^verbatim>\<open>try\<close>, so the exception of a body that is not a dict,
  or of an \<^verbatim>\<open>ids\<close> value that \<^verbatim>\<open>in_\<close> refuses, is not caught. \<open>None\<close> is the case in which
  neither \<^verbatim>\<open>export_all\<close> nor \<^verbatim>\<open>ids\<close> is given.
\<close>

definition select_solicitudes ::
  "db \<Rightarrow> jval \<Rightarrow> solicitud list \<Rightarrow> pyerror + solicitud list option" where
  "select_solicitudes d data store =
     and_then (py_get data ''export_all'' (JBool False)) (\<lambda>export_all.
     and_then (py_get data ''ids'' (JArr [])) (\<lambda>ids_to_export.
       if py_bool export_all then Inr (Some store)
       else if py_bool ids_to_export
         then (case id_in d ids_to_export of
                 None \<Rightarrow> Inl ArgumentError
               | Some among \<Rightarrow> Inr (Some (filter (\<lambda>s. among (id' s)) store)))
       else Inr None))"

text \<open>
  The paragraphs the loop body builds for a row: the description always, the resolution
  when \<^verbatim>\<open>que_hizo\<close> is truthy. The drawing functions above say what is drawn when every
  paragraph is accepted. When one is not, the ValueError leaves the loop and the handler,
  which has no \<^verbatim>\<open>try\<close>, and nothing of the document is sent.
\<close>

definition can_lay_out :: "render_lib \<Rightarrow> solicitud \<Rightarrow> bool" where
  "can_lay_out L s \<longleftrightarrow>
     can_parse L (descripcion s) \<and> (\<not> py_bool (que_hizo s) \<or> can_parse L (que_hizo s))"

text \<open>\<^verbatim>\<open>export_pdf\<close>. The function never reads the session.\<close>

definition export_pdf ::
  "db \<Rightarrow> render_lib \<Rightarrow> session \<Rightarrow> jval \<Rightarrow> solicitud list \<Rightarrow> response" where
  "export_pdf d L sess data store =
     (case select_solicitudes d data store of
        Inl e \<Rightarrow> Uncaught e
      | Inr None \<Rightarrow> Response 400 (Message ''No se especificaron solicitudes para exportar.'')
      | Inr (Some solicitudes) \<Rightarrow>
          if list_all (can_lay_out L) solicitudes
          then Response 200 (File (render_report L solicitudes))
          else Uncaught ValueError)"


section \<open>Instances used in the examples\<close>

text \<open>A request without a session, and one made after a login of department DTISC.\<close>

definition anonymous :: session where
  "anonymous = \<lparr>user_id = None, departamento = None, username = None\<rparr>"

definition dtisc :: session where
  "dtisc = \<lparr>user_id = Some 1, departamento = Some ''DTISC'', username = Some ''dtisc''\<rparr>"

definition diac :: session where
  "diac = \<lparr>user_id = Some 2, departamento = Some ''DIAC'', username = Some ''diac''\<rparr>"

definition dga :: session where
  "dga = \<lparr>user_id = Some 3, departamento = Some ''DGA'', username = Some ''dga''\<rparr>"

text \<open>The \<^verbatim>\<open>IN\<close> test against a JSON array of numbers; any other value is refused.\<close>

definition in_array :: "jval \<Rightarrow> (int \<Rightarrow> bool) option" where
  "in_array v = (case v of JArr xs \<Rightarrow> Some (\<lambda>i. JNum i \<in> set xs) | _ \<Rightarrow> None)"

text \<open>
  The program configures sqlite (\<^verbatim>\<open>SQLALCHEMY_DATABASE_URI\<close>). Its sorter returns the rows
  of an ordered query latest first and leaves rows with the same \<^verbatim>\<open>fecha_creacion\<close> in the
  order in which the scan of the table delivers them, the order of insertion: a stable
  sort on the negated key.
\<close>

definition latest_first_stable :: "solicitud list \<Rightarrow> solicitud list" where
  "latest_first_stable rows = sort_key (\<lambda>s. - fecha_creacion s) rows"

text \<open>An engine that accepts every commit and numbers the rows from 1.\<close>

definition engine :: db where
  "engine = \<lparr>commit_ok = (\<lambda>ch. True), order_by_fecha_desc = latest_first_stable,
             id_in = in_array, next_id = (\<lambda>store. fold max (map id' store) 0 + 1),
             utcnow = 1700000000000000\<rparr>"

text \<open>
  The decimal digits of a number, as \<^verbatim>\<open>str\<close> prints a primary key. A number \<open>n\<close> has at
  most \<open>n + 1\<close> digits, which bounds the recursion.
\<close>

primrec decimal_upto :: "nat \<Rightarrow> nat \<Rightarrow> string" where
  "decimal_upto 0 n = []"
| "decimal_upto (Suc k) n =
     (if n < 10 then [''0123456789'' ! n]
      else decimal_upto k (n div 10) @ [''0123456789'' ! (n mod 10)])"

definition decimal :: "nat \<Rightarrow> string" where
  "decimal n = decimal_upto (Suc n) n"

text \<open>
  A rendering library with paragraphs of one line, which refuses the text \<^verbatim>\<open><b>\<close> and
  everything that is not a string.
\<close>

definition plain_lib :: render_lib where
  "plain_lib = \<lparr>now_str = ''2024-01-01 00:00:00'', strftime = (\<lambda>t. ''2023-11-14 22:13:20''),
                str_of = (\<lambda>v. case v of JStr s \<Rightarrow> s | JNum n \<Rightarrow> decimal (nat n) | _ \<Rightarrow> ''None''),
                wrap_height = (\<lambda>t. 14),
                can_parse = (\<lambda>t. case t of JStr s \<Rightarrow> s \<noteq> ''<b>'' | _ \<Rightarrow> False)\<rparr>"

text \<open>
  A request sent by DTISC to DIAC, a second one created at the same instant, and a third
  one created later.
\<close>

definition row1 :: solicitud where
  "row1 = \<lparr>id' = 1, cedula = JStr ''V-1'', nombre = JStr ''Ana'', dependencia = ''DTISC'',
           tipo = JStr ''Soporte'', descripcion = JStr ''Impresora'',
           departamento_destino = JStr ''DIAC'', fecha_creacion = 1700000000000000,
           status = JStr ''Recibida'', quien_atendio = JNull, que_hizo = JNull\<rparr>"

definition row2 :: solicitud where
  "row2 = row1\<lparr>id' := 2, descripcion := JStr ''Red''\<rparr>"


text \<open>A creation body that also carries keys the endpoint does not read.\<close>

definition payload1 :: jval where
  "payload1 = JObj [(''cedula'', JStr ''V-2''), (''nombre'', JStr ''Luis''), (''tipo'', JStr ''Soporte''),
                (''descripcion'', JStr ''Red''), (''departamento_destino'', JStr ''DIAC''),
                (''status'', JStr ''Cerrada''), (''estado'', JStr ''Cerrada''),
                (''dependencia'', JStr ''DGA'')]"

section \<open>Updates: who may change what\<close>

lemma assign_if_present_Inr:
  assumes "assign_if_present k setter data s = Inr s'"
  shows "s' = s \<or> (\<exists>v. py_getitem data k = Inr v \<and> s' = setter v s)"
  using assms
  by (auto simp: assign_if_present_def and_then_def split: sum.splits if_splits)

lemma emisor_fields_Inr:
  assumes "emisor_fields data s = Inr s'"
  shows "s' = s\<lparr>descripcion := descripcion s', departamento_destino := departamento_destino s'\<rparr>
       \<and> (descripcion s' \<noteq> descripcion s \<longrightarrow> py_getitem data ''descripcion'' = Inr (descripcion s'))
       \<and> (departamento_destino s' \<noteq> departamento_destino s \<longrightarrow>
            py_getitem data ''departamento_destino'' = Inr (departamento_destino s'))"
proof -
  from assms obtain s1 where
    a: "assign_if_present ''descripcion'' (\<lambda>v r. r\<lparr>descripcion := v\<rparr>) data s = Inr s1" and
    b: "assign_if_present ''departamento_destino'' (\<lambda>v r. r\<lparr>departamento_destino := v\<rparr>) data s1 = Inr s'"
    by (auto simp: emisor_fields_def and_then_def split: sum.splits)
  from assign_if_present_Inr[OF a] assign_if_present_Inr[OF b]
  show ?thesis by auto
qed

lemma receptor_fields_Inr:
  assumes "receptor_fields data s = Inr s'"
  shows "s' = s\<lparr>status := status s', quien_atendio := quien_atendio s', que_hizo := que_hizo s'\<rparr>
       \<and> (status s' \<noteq> status s \<longrightarrow> py_getitem data ''estado'' = Inr (status s'))
       \<and> (quien_atendio s' \<noteq> quien_atendio s \<longrightarrow> py_getitem data ''quien_atendio'' = Inr (quien_atendio s'))
       \<and> (que_hizo s' \<noteq> que_hizo s \<longrightarrow> py_getitem data ''que_hizo'' = Inr (que_hizo s'))"
proof -
  from assms obtain s1 s2 where
    a: "assign_if_present ''estado'' (\<lambda>v r. r\<lparr>status := v\<rparr>) data s = Inr s1" and
    b: "assign_if_present ''quien_atendio'' (\<lambda>v r. r\<lparr>quien_atendio := v\<rparr>) data s1 = Inr s2" and
    c: "assign_if_present ''que_hizo'' (\<lambda>v r. r\<lparr>que_hizo := v\<rparr>) data s2 = Inr s'"
    by (auto simp: receptor_fields_def and_then_def split: sum.splits)
  from assign_if_present_Inr[OF a] assign_if_present_Inr[OF b] assign_if_present_Inr[OF c]
  show ?thesis by auto
qed

lemma get_or_404_id: "get_or_404 store i = Some s \<Longrightarrow> id' s = i"
  by (auto simp: get_or_404_def find_Some_iff)

lemma get_or_404_write_row:
  "get_or_404 store i = Some s \<Longrightarrow> id' s' = i \<Longrightarrow> get_or_404 (write_row s' store) i = Some s'"
  by (induction store) (auto simp: get_or_404_def split: if_splits)

lemma commit_update_row:
  assumes "get_or_404 store i = Some s" and "commit_update d store r = (resp, store')"
  shows "get_or_404 store' i = Some s \<or> (\<exists>s'. r = Inr s' \<and> (id' s' = i \<longrightarrow> get_or_404 store' i = Some s'))"
  using assms
  by (auto simp: commit_update_def get_or_404_write_row split: sum.splits if_splits)

text \<open>
  Claim C1. When the acting department is the row's \<^verbatim>\<open>dependencia\<close> (the sender), an
  update leaves \<^verbatim>\<open>status\<close>, \<^verbatim>\<open>quien_atendio\<close> and \<^verbatim>\<open>que_hizo\<close> as they were, whatever the
  body holds: the row found under the same id afterwards differs from the old one in
  \<^verbatim>\<open>descripcion\<close> and \<^verbatim>\<open>departamento_destino\<close> at most, and each of the two differs only
  when the body is a dict that holds the new value under that key.
\<close>

theorem emisor_update_frame:
  assumes "get_or_404 store i = Some s"
    and "departamento sess = Some (dependencia s)"
    and "update_solicitud d sess i data store = (resp, store')"
  shows "\<exists>s'. get_or_404 store' i = Some s'
       \<and> status s' = status s \<and> quien_atendio s' = quien_atendio s \<and> que_hizo s' = que_hizo s
       \<and> s' = s\<lparr>descripcion := descripcion s', departamento_destino := departamento_destino s'\<rparr>
       \<and> (descripcion s' \<noteq> descripcion s \<longrightarrow> py_getitem data ''descripcion'' = Inr (descripcion s'))
       \<and> (departamento_destino s' \<noteq> departamento_destino s \<longrightarrow>
            py_getitem data ''departamento_destino'' = Inr (departamento_destino s'))"
proof (cases "dependencia s = []")
  case True
  with assms have "store' = store" by (simp add: update_solicitud_def)
  with assms(1) show ?thesis by auto
next
  case False
  with assms have cu: "commit_update d store (emisor_fields data s) = (resp, store')"
    by (simp add: update_solicitud_def)
  from commit_update_row[OF assms(1) cu] show ?thesis
  proof
    assume "get_or_404 store' i = Some s" then show ?thesis by auto
  next
    assume "\<exists>s'. emisor_fields data s = Inr s' \<and> (id' s' = i \<longrightarrow> get_or_404 store' i = Some s')"
    then obtain s' where e: "emisor_fields data s = Inr s'" and g: "id' s' = i \<longrightarrow> get_or_404 store' i = Some s'"
      by blast
    note f = emisor_fields_Inr[OF e]
    from f have eq: "s' = s\<lparr>descripcion := descripcion s', departamento_destino := departamento_destino s'\<rparr>"
      by blast
    have "id' s' = id' s" by (subst eq) simp
    with get_or_404_id[OF assms(1)] g have "get_or_404 store' i = Some s'" by simp
    moreover have "status s' = status s" by (subst eq) simp
    moreover have "quien_atendio s' = quien_atendio s" by (subst eq) simp
    moreover have "que_hizo s' = que_hizo s" by (subst eq) simp
    ultimately show ?thesis using f by blast
  qed
qed

theorem emisor_update_frame_witness:
  "\<exists>s'. get_or_404 (snd (update_solicitud engine dtisc 1
            (JObj [(''estado'', JStr ''Cerrada''), (''quien_atendio'', JStr ''yo''),
                   (''que_hizo'', JStr ''nada''), (''descripcion'', JStr ''Toner'')]) [row1])) 1 = Some s'
       \<and> status s' = JStr ''Recibida'' \<and> quien_atendio s' = JNull \<and> que_hizo s' = JNull
       \<and> descripcion s' = JStr ''Toner''"
proof -
  let ?data = "JObj [(''estado'', JStr ''Cerrada''), (''quien_atendio'', JStr ''yo''),
                   (''que_hizo'', JStr ''nada''), (''descripcion'', JStr ''Toner'')]"
  have h1: "get_or_404 [row1] 1 = Some row1" by (simp add: get_or_404_def row1_def)
  have h2: "departamento dtisc = Some (dependencia row1)" by (simp add: dtisc_def row1_def)
  have h3: "update_solicitud engine dtisc 1 ?data [row1]
      = (fst (update_solicitud engine dtisc 1 ?data [row1]), snd (update_solicitud engine dtisc 1 ?data [row1]))"
    by simp
  have d: "py_getitem ?data ''descripcion'' = Inr (JStr ''Toner'')" by simp
  have ch: "descripcion (row1\<lparr>descripcion := JStr ''Toner''\<rparr>) \<noteq> descripcion row1" by (simp add: row1_def)
  have v: "snd (update_solicitud engine dtisc 1 ?data [row1]) = [row1\<lparr>descripcion := JStr ''Toner''\<rparr>]"
    by (simp add: update_solicitud_def get_or_404_def row1_def dtisc_def engine_def commit_update_def
        emisor_fields_def assign_if_present_def and_then_def)
  from emisor_update_frame[OF h1 h2 h3] v show ?thesis
    by (auto simp: row1_def get_or_404_def) 
qed

text \<open>
  Claim C2. When the acting department is the row's \<^verbatim>\<open>departamento_destino\<close> and not its
  \<^verbatim>\<open>dependencia\<close> (the recipient), an update leaves \<^verbatim>\<open>descripcion\<close> and
  \<^verbatim>\<open>departamento_destino\<close> as they were, whatever the body holds: the row differs from the
  old one in \<^verbatim>\<open>status\<close>, \<^verbatim>\<open>quien_atendio\<close> and \<^verbatim>\<open>que_hizo\<close> at most, and each differs only
  when the body is a dict that holds the new value (the status under its key \<^verbatim>\<open>estado\<close>,
  the name \<^verbatim>\<open>to_dict\<close> gives it too).
\<close>

theorem receptor_update_frame:
  assumes "get_or_404 store i = Some s"
    and "departamento sess = Some dep"
    and "JStr dep = departamento_destino s"
    and "dep \<noteq> dependencia s"
    and "update_solicitud d sess i data store = (resp, store')"
  shows "\<exists>s'. get_or_404 store' i = Some s'
       \<and> descripcion s' = descripcion s \<and> departamento_destino s' = departamento_destino s
       \<and> s' = s\<lparr>status := status s', quien_atendio := quien_atendio s', que_hizo := que_hizo s'\<rparr>
       \<and> (status s' \<noteq> status s \<longrightarrow> py_getitem data ''estado'' = Inr (status s'))
       \<and> (quien_atendio s' \<noteq> quien_atendio s \<longrightarrow>
            py_getitem data ''quien_atendio'' = Inr (quien_atendio s'))
       \<and> (que_hizo s' \<noteq> que_hizo s \<longrightarrow> py_getitem data ''que_hizo'' = Inr (que_hizo s'))"
proof (cases "dep = []")
  case True
  with assms have "store' = store" by (simp add: update_solicitud_def)
  with assms(1) show ?thesis by auto
next
  case False
  with assms have cu: "commit_update d store (receptor_fields data s) = (resp, store')"
    by (simp add: update_solicitud_def)
  from commit_update_row[OF assms(1) cu] show ?thesis
  proof
    assume "get_or_404 store' i = Some s" then show ?thesis by auto
  next
    assume "\<exists>s'. receptor_fields data s = Inr s' \<and> (id' s' = i \<longrightarrow> get_or_404 store' i = Some s')"
    then obtain s' where e: "receptor_fields data s = Inr s'"
      and g: "id' s' = i \<longrightarrow> get_or_404 store' i = Some s'"
      by blast
    note f = receptor_fields_Inr[OF e]
    from f have eq: "s' = s\<lparr>status := status s', quien_atendio := quien_atendio s', que_hizo := que_hizo s'\<rparr>"
      by blast
    have "id' s' = id' s" by (subst eq) simp
    with get_or_404_id[OF assms(1)] g have "get_or_404 store' i = Some s'" by simp
    moreover have "descripcion s' = descripcion s" by (subst eq) simp
    moreover have "departamento_destino s' = departamento_destino s" by (subst eq) simp
    ultimately show ?thesis using f by blast
  qed
qed

theorem receptor_update_frame_witness:
  "\<exists>s'. get_or_404 (snd (update_solicitud engine diac 1
            (JObj [(''estado'', JStr ''Cerrada''), (''descripcion'', JStr ''Toner''),
                   (''departamento_destino'', JStr ''DGA'')]) [row1])) 1 = Some s'
       \<and> descripcion s' = JStr ''Impresora'' \<and> departamento_destino s' = JStr ''DIAC''
       \<and> status s' = JStr ''Cerrada''"
proof -
  let ?data = "JObj [(''estado'', JStr ''Cerrada''), (''descripcion'', JStr ''Toner''),
                   (''departamento_destino'', JStr ''DGA'')]"
  have h1: "get_or_404 [row1] 1 = Some row1" by (simp add: get_or_404_def row1_def)
  have h2: "departamento diac = Some ''DIAC''" by (simp add: diac_def)
  have h3: "JStr ''DIAC'' = departamento_destino row1" by (simp add: row1_def)
  have h4: "''DIAC'' \<noteq> dependencia row1" by (simp add: row1_def)
  have h5: "update_solicitud engine diac 1 ?data [row1]
      = (fst (update_solicitud engine diac 1 ?data [row1]), snd (update_solicitud engine diac 1 ?data [row1]))"
    by simp
  have v: "snd (update_solicitud engine diac 1 ?data [row1]) = [row1\<lparr>status := JStr ''Cerrada''\<rparr>]"
    by (simp add: update_solicitud_def get_or_404_def row1_def diac_def engine_def commit_update_def
        receptor_fields_def assign_if_present_def and_then_def)
  from receptor_update_frame[OF h1 h2 h3 h4 h5] v show ?thesis
    by (auto simp: row1_def get_or_404_def)
qed

text \<open>
  Claim C3. When the acting department is neither the row's \<^verbatim>\<open>dependencia\<close> nor its
  \<^verbatim>\<open>departamento_destino\<close>, the update is answered with 403 and the table, with every
  row in it, is left as it was.
\<close>

theorem third_party_update_forbidden:
  assumes "get_or_404 store i = Some s"
    and "departamento sess = Some dep"
    and "dep \<noteq> []"
    and "dep \<noteq> dependencia s"
    and "JStr dep \<noteq> departamento_destino s"
  shows "update_solicitud d sess i data store = (sin_permiso, store)
       \<and> sin_permiso = Response 403 (Message ''No tienes permiso para modificar esta tarea.'')"
  using assms by (simp add: update_solicitud_def sin_permiso_def)

theorem third_party_update_forbidden_witness:
  "update_solicitud engine dga 1
     (JObj [(''estado'', JStr ''Cerrada''), (''descripcion'', JStr ''Toner'')]) [row1]
   = (Response 403 (Message ''No tienes permiso para modificar esta tarea.''), [row1])"
proof -
  have h1: "get_or_404 [row1] 1 = Some row1" by (simp add: get_or_404_def row1_def)
  have h2: "departamento dga = Some ''DGA''" by (simp add: dga_def)
  have h3: "''DGA'' \<noteq> []" by simp
  have h4: "''DGA'' \<noteq> dependencia row1" by (simp add: row1_def)
  have h5: "JStr ''DGA'' \<noteq> departamento_destino row1" by (simp add: row1_def)
  from third_party_update_forbidden[OF h1 h2 h3 h4 h5] show ?thesis by simp
qed


section \<open>Creation and listing\<close>

lemma new_solicitud_Inr:
  assumes "new_solicitud d dep data store = Inr s"
  shows "status s = JStr ''Recibida'' \<and> dependencia s = dep
       \<and> py_getitem data ''departamento_destino'' = Inr (departamento_destino s)"
  using assms
  by (auto simp: new_solicitud_def and_then_def split: sum.splits)

text \<open>
  Claim C4, as amended. A creation by a user whose session names department \<open>dep\<close> either
  leaves the table as it was (answer 401 or 400) or answers 201 and appends one row whose
  \<^verbatim>\<open>status\<close> is the literal \<^verbatim>\<open>Recibida\<close> and whose \<^verbatim>\<open>dependencia\<close> is \<open>dep\<close>, whatever the
  body holds under \<^verbatim>\<open>status\<close>, \<^verbatim>\<open>estado\<close> or \<^verbatim>\<open>dependencia\<close>.
\<close>

theorem create_stamps_status_and_dependencia:
  assumes "departamento sess = Some dep"
    and "create_solicitud d sess data store = (resp, store')"
  shows "(store' = store \<and> (\<exists>b. resp = Response 401 b \<or> resp = Response 400 b))
       \<or> (\<exists>s b. resp = Response 201 b \<and> store' = store @ [s]
             \<and> status s = JStr ''Recibida'' \<and> dependencia s = dep)"
proof (cases "dep = []")
  case True
  with assms show ?thesis by (auto simp: create_solicitud_def no_autorizado_def)
next
  case False
  show ?thesis
  proof (cases "new_solicitud d dep data store")
    case (Inl e)
    with False assms show ?thesis by (auto simp: create_solicitud_def)
  next
    case (Inr s)
    from new_solicitud_Inr[OF Inr] Inr False assms show ?thesis
      by (auto simp: create_solicitud_def split: if_splits)
  qed
qed

lemma create_value:
  "create_solicitud engine dtisc payload1 [] =
     (Response 201 (Message (''Tarea creada con '' @ [CHR 0xC3, CHR 0xA9] @ ''xito'')),
      [\<lparr>id' = 1, cedula = JStr ''V-2'', nombre = JStr ''Luis'', dependencia = ''DTISC'',
        tipo = JStr ''Soporte'', descripcion = JStr ''Red'', departamento_destino = JStr ''DIAC'',
        fecha_creacion = 1700000000000000, status = JStr ''Recibida'',
        quien_atendio = JNull, que_hizo = JNull\<rparr>])"
  by (simp add: create_solicitud_def dtisc_def payload1_def new_solicitud_def and_then_def engine_def)

theorem create_stamps_status_and_dependencia_witness:
  "map status (snd (create_solicitud engine dtisc payload1 [])) = [JStr ''Recibida'']
   \<and> map dependencia (snd (create_solicitud engine dtisc payload1 [])) = [''DTISC'']"
proof -
  have h1: "departamento dtisc = Some ''DTISC''" by (simp add: dtisc_def)
  have h2: "create_solicitud engine dtisc payload1 []
      = (fst (create_solicitud engine dtisc payload1 []), snd (create_solicitud engine dtisc payload1 []))"
    by simp
  from create_stamps_status_and_dependencia[OF h1 h2] show ?thesis
    by (auto simp: create_value)
qed

text \<open>
  The status of a created row is not the string \<^verbatim>\<open>Received\<close>: the program stores
  \<^verbatim>\<open>Recibida\<close>.
\<close>

theorem create_status_received_counterexample:
  "fst (create_solicitud engine dtisc payload1 [])
     = Response 201 (Message (''Tarea creada con '' @ [CHR 0xC3, CHR 0xA9] @ ''xito''))
   \<and> map status (snd (create_solicitud engine dtisc payload1 [])) = [JStr ''Recibida'']
   \<and> map status (snd (create_solicitud engine dtisc payload1 [])) \<noteq> [JStr ''Received'']"
  by (simp add: create_value)

lemma set_order_by:
  assumes "order_by_spec ob" shows "set (ob rows) = set rows"
proof -
  from assms have "mset (ob rows) = mset rows" by (simp add: order_by_spec_def)
  then show ?thesis by (rule mset_eq_setD)
qed

text \<open>
  Claim C5. A stored row \<open>s\<close> appears in the listing returned to department \<open>dep\<close> if and
  only if \<open>dep\<close> is the row's \<^verbatim>\<open>dependencia\<close> or its \<^verbatim>\<open>departamento_destino\<close>.
\<close>

theorem listing_visible_iff:
  assumes "order_by_spec (order_by_fecha_desc d)"
    and "departamento sess = Some dep"
    and "dep \<noteq> []"
    and "s \<in> set store"
  shows "\<exists>rows. get_solicitudes d sess store = Response 200 (Rows rows)
       \<and> (s \<in> set rows \<longleftrightarrow> dep = dependencia s \<or> JStr dep = departamento_destino s)"
  using assms set_order_by[OF assms(1)]
  by (auto simp: get_solicitudes_def visible_to_def)

lemma latest_first_stable_spec: "order_by_spec latest_first_stable"
  unfolding order_by_spec_def latest_first_stable_def
proof (intro allI conjI)
  fix rows :: "solicitud list"
  show "mset (sort_key (\<lambda>s. - fecha_creacion s) rows) = mset rows" by simp
  have "sorted (map (\<lambda>s. - fecha_creacion s) (sort_key (\<lambda>s. - fecha_creacion s) rows))"
    by (rule sorted_sort_key)
  then show "sorted_wrt (\<lambda>a b. fecha_creacion b \<le> fecha_creacion a) (sort_key (\<lambda>s. - fecha_creacion s) rows)"
    by (simp add: sorted_map)
qed

theorem listing_visible_iff_witness:
  "get_solicitudes engine diac [row1, row1\<lparr>id' := 3, departamento_destino := JStr ''DGA''\<rparr>]
     = Response 200 (Rows [row1])"
proof -
  let ?r3 = "row1\<lparr>id' := 3, departamento_destino := JStr ''DGA''\<rparr>"
  have h1: "order_by_spec (order_by_fecha_desc engine)"
    by (simp add: engine_def latest_first_stable_spec)
  have h2: "departamento diac = Some ''DIAC''" by (simp add: diac_def)
  have h3: "''DIAC'' \<noteq> []" by simp
  have h4: "row1 \<in> set [row1, ?r3]" by simp
  from listing_visible_iff[OF h1 h2 h3 h4] show ?thesis
    by (simp add: get_solicitudes_def diac_def engine_def visible_to_def row1_def latest_first_stable_def)
qed


section \<open>Requests without a session; order of the listing\<close>

lemma get_solicitudes_without_session:
  assumes "departamento sess = None \<or> departamento sess = Some []"
  shows "get_solicitudes d sess store = no_autorizado"
  using assms by (auto simp: get_solicitudes_def)

lemma create_solicitud_without_session:
  assumes "departamento sess = None \<or> departamento sess = Some []"
  shows "create_solicitud d sess data store = (no_autorizado, store)"
  using assms by (auto simp: create_solicitud_def)

lemma update_solicitud_without_session:
  assumes "departamento sess = None \<or> departamento sess = Some []"
  shows "update_solicitud d sess i data store =
           (case get_or_404 store i of None \<Rightarrow> (not_found, store) | Some s \<Rightarrow> (no_autorizado, store))"
  using assms by (auto simp: update_solicitud_def split: option.splits)

lemma delete_solicitud_ignores_session:
  "delete_solicitud d sess i store = delete_solicitud d sess' i store"
  by (simp add: delete_solicitud_def)

text \<open>
  Claim C6 says that list, create, update and delete without a resolvable session
  department are rejected as Unauthorized before any row is read or changed. The three
  lemmas above give what holds for list, create and update. \<^verbatim>\<open>delete_solicitud\<close> has no
  such check: without a session it deletes the row and answers 200. \<^verbatim>\<open>update_solicitud\<close>
  looks the row up before it checks the session, so an unknown id is answered 404.
\<close>

theorem delete_without_session_deletes:
  "departamento anonymous = None
   \<and> delete_solicitud engine anonymous 1 [row1]
       = (Response 200 (Message (''Tarea eliminada con '' @ [CHR 0xC3, CHR 0xA9] @ ''xito'')), [])
   \<and> update_solicitud engine anonymous 7 (JObj []) [row1] = (Response 404 (Message ''Not Found''), [row1])"
  by (simp add: anonymous_def delete_solicitud_def update_solicitud_def get_or_404_def row1_def
      engine_def not_found_def)






section \<open>The report: empty selection, pagination, session\<close>

lemma first_page_eq:
  "first_page L =
     \<lparr>ops = [SetFont ''Helvetica-Bold'' 18,
             DrawString 50 742 ''Reporte de Solicitudes FUNDACITE'',
             SetFont ''Helvetica'' 10,
             DrawString 50 712 (''Fecha de generaci'' @ [CHR 0xC3, CHR 0xB3] @ ''n: '' @ now_str L)],
      y_position = 692\<rparr>"
  by (simp add: first_page_def run_def set_font_def draw_string_def down_def)

lemma new_page_if_low_eq:
  "new_page_if_low c =
     (if y_position c < 100
      then c\<lparr>ops := ops c @ [ShowPage, SetFont ''Helvetica-Bold'' 18, DrawString 50 742 continuacion],
             y_position := 712\<rparr>
      else c)"
  by (simp add: new_page_if_low_def run_def show_page_def set_y_def set_font_def draw_string_def
      down_def)

lemma new_page_if_low_y: "100 \<le> y_position (new_page_if_low c)"
  by (simp add: new_page_if_low_eq)

lemma draw_solicitud_ops:
  "\<exists>rest. ops (draw_solicitud L s c) =
     ops c @ SetFont ''Helvetica-Bold'' 12 # DrawString 50 (y_position c) (header_text L s) # rest"
  by (simp add: draw_solicitud_def run_def details_def set_font_def draw_string_def down_def
      draw_paragraph_def draw_line_def)

lemma draw_solicitud_y:
  "y_position (draw_solicitud L s c) =
     y_position c - (15 + 8 * 15 + 5 + 15 + (wrap_height L (descripcion s) + 10)
       + (if py_bool (que_hizo s) then 15 + (wrap_height L (que_hizo s) + 20) else 20) + 10 + 20)"
  by (simp add: draw_solicitud_def run_def details_def set_font_def draw_string_def down_def
      draw_paragraph_def draw_line_def)

lemma draw_solicitudes_append:
  "draw_solicitudes L (xs @ ys) c = draw_solicitudes L ys (draw_solicitudes L xs c)"
  by (induction xs arbitrary: c) simp_all

lemma prefix_new_page_if_low: "prefix (ops c) (ops (new_page_if_low c))"
  by (simp add: new_page_if_low_eq)

lemma prefix_draw_solicitud: "prefix (ops c) (ops (draw_solicitud L s c))"
proof -
  from draw_solicitud_ops[of L s c] obtain rest where
    "ops (draw_solicitud L s c) = ops c @ SetFont ''Helvetica-Bold'' 12 # DrawString 50 (y_position c) (header_text L s) # rest"
    by blast
  then show ?thesis by (simp add: prefix_def)
qed

lemma prefix_draw_solicitudes: "prefix (ops c) (ops (draw_solicitudes L ss c))"
proof (induction ss arbitrary: c)
  case Nil
  show ?case by simp
next
  case (Cons s ss)
  have "prefix (ops c) (ops (draw_solicitud L s (new_page_if_low c)))"
    using prefix_new_page_if_low prefix_draw_solicitud by (rule prefix_order.trans)
  also have "prefix \<dots> (ops (draw_solicitudes L ss (draw_solicitud L s (new_page_if_low c))))"
    by (rule Cons.IH)
  finally show ?case by simp
qed

text \<open>
  Claim C9. Take any list of rows and any row \<open>s\<close> in it, with \<open>pre\<close> the rows before it.
  The canvas \<open>before\<close> is what the loop has drawn for \<open>pre\<close>; the check at the head of the
  loop body turns it into \<open>at\<close>. The loop goes on from \<open>at\<close> with the block of \<open>s\<close> and then
  the rows after it. Exactly when \<^verbatim>\<open>y_position\<close> is below 100 the check ends the page,
  puts the cursor back at the top and draws the continuation title; otherwise it changes
  nothing. The header of \<open>s\<close> is the first thing drawn after the check, at a height of at
  least 100. Everything drawn up to the end of the block of \<open>s\<close> is an initial segment of
  the finished report: no later row changes it.
\<close>

theorem pagination_greedy_forward:
  "let before = draw_solicitudes L pre c0; at = new_page_if_low before in
     draw_solicitudes L (pre @ s # post) c0 = draw_solicitudes L post (draw_solicitud L s at)
   \<and> at = (if y_position before < 100
           then before\<lparr>ops := ops before @
                         [ShowPage, SetFont ''Helvetica-Bold'' 18, DrawString 50 742 continuacion],
                       y_position := 712\<rparr>
           else before)
   \<and> 100 \<le> y_position at
   \<and> (\<exists>rest. ops (draw_solicitud L s at) =
         ops at @ SetFont ''Helvetica-Bold'' 12 # DrawString 50 (y_position at) (header_text L s) # rest)
   \<and> prefix (ops (draw_solicitud L s at)) (ops (draw_solicitudes L (pre @ s # post) c0))"
  unfolding Let_def
proof (intro conjI)
  let ?before = "draw_solicitudes L pre c0"
  let ?at = "new_page_if_low ?before"
  show step: "draw_solicitudes L (pre @ s # post) c0 = draw_solicitudes L post (draw_solicitud L s ?at)"
    by (simp add: draw_solicitudes_append)
  show "?at = (if y_position ?before < 100
           then ?before\<lparr>ops := ops ?before @
                         [ShowPage, SetFont ''Helvetica-Bold'' 18, DrawString 50 742 continuacion],
                       y_position := 712\<rparr>
           else ?before)"
    by (rule new_page_if_low_eq)
  show "100 \<le> y_position ?at" by (rule new_page_if_low_y)
  show "\<exists>rest. ops (draw_solicitud L s ?at) =
         ops ?at @ SetFont ''Helvetica-Bold'' 12 # DrawString 50 (y_position ?at) (header_text L s) # rest"
    by (rule draw_solicitud_ops)
  show "prefix (ops (draw_solicitud L s ?at)) (ops (draw_solicitudes L (pre @ s # post) c0))"
    unfolding step by (rule prefix_draw_solicitudes)
qed

lemma three_rows_reach_the_margin:
  "y_position (draw_solicitudes plain_lib [row1, row1, row1] (first_page plain_lib)) = 5"
  by (simp add: draw_solicitud_y new_page_if_low_eq first_page_eq plain_lib_def row1_def)

theorem pagination_greedy_forward_witness:
  "y_position (draw_solicitudes plain_lib [row1, row1, row1] (first_page plain_lib)) = 5
   \<and> y_position (new_page_if_low
         (draw_solicitudes plain_lib [row1, row1, row1] (first_page plain_lib))) = 712
   \<and> prefix (ops (draw_solicitudes plain_lib [row1, row1, row1] (first_page plain_lib))
              @ [ShowPage, SetFont ''Helvetica-Bold'' 18, DrawString 50 742 continuacion,
                 SetFont ''Helvetica-Bold'' 12, DrawString 50 712 (header_text plain_lib row2)])
        (ops (draw_solicitudes plain_lib ([row1, row1, row1] @ row2 # [row1]) (first_page plain_lib)))"
proof -
  let ?before = "draw_solicitudes plain_lib [row1, row1, row1] (first_page plain_lib)"
  let ?at = "new_page_if_low ?before"
  note g = pagination_greedy_forward[of plain_lib "[row1, row1, row1]" "first_page plain_lib" row2 "[row1]",
      unfolded Let_def]
  have y: "y_position ?before = 5" by (rule three_rows_reach_the_margin)
  from g y have at: "?at = ?before\<lparr>ops := ops ?before @
      [ShowPage, SetFont ''Helvetica-Bold'' 18, DrawString 50 742 continuacion], y_position := 712\<rparr>"
    by simp
  from g obtain rest where r: "ops (draw_solicitud plain_lib row2 ?at) =
      ops ?at @ SetFont ''Helvetica-Bold'' 12 # DrawString 50 (y_position ?at) (header_text plain_lib row2) # rest"
    by blast
  have a1: "ops ?at = ops ?before @ [ShowPage, SetFont ''Helvetica-Bold'' 18, DrawString 50 742 continuacion]"
    by (subst at) simp
  have a2: "y_position ?at = 712" by (subst at) simp
  have "prefix (ops ?before @ [ShowPage, SetFont ''Helvetica-Bold'' 18, DrawString 50 742 continuacion,
                 SetFont ''Helvetica-Bold'' 12, DrawString 50 712 (header_text plain_lib row2)])
          (ops (draw_solicitud plain_lib row2 ?at))"
    unfolding r a1 a2 by (simp add: prefix_def)
  moreover from g have "prefix (ops (draw_solicitud plain_lib row2 ?at))
      (ops (draw_solicitudes plain_lib ([row1, row1, row1] @ row2 # [row1]) (first_page plain_lib)))"
    by blast
  ultimately have "prefix (ops ?before @ [ShowPage, SetFont ''Helvetica-Bold'' 18, DrawString 50 742 continuacion,
                 SetFont ''Helvetica-Bold'' 12, DrawString 50 712 (header_text plain_lib row2)])
      (ops (draw_solicitudes plain_lib ([row1, row1, row1] @ row2 # [row1]) (first_page plain_lib)))"
    by (rule prefix_order.trans)
  with y a2 show ?thesis by blast
qed


text \<open>
  Claim C8. When the selection of \<^verbatim>\<open>export_pdf\<close> holds no row, the answer is 200 with a
  document that consists of the title, the date line and the line
  \<^verbatim>\<open>No hay solicitudes para mostrar en este reporte.\<close>, all on one page.
\<close>

theorem empty_report_single_page:
  assumes "select_solicitudes d data store = Inr (Some [])"
  shows "export_pdf d L sess data store = Response 200 (File (render_report L []))
       \<and> render_report L [] =
           [SetFont ''Helvetica-Bold'' 18,
            DrawString 50 742 ''Reporte de Solicitudes FUNDACITE'',
            SetFont ''Helvetica'' 10,
            DrawString 50 712 (''Fecha de generaci'' @ [CHR 0xC3, CHR 0xB3] @ ''n: '' @ now_str L),
            DrawString 50 692 no_hay_solicitudes]
       \<and> page_count (render_report L []) = 1"
  using assms
  by (simp add: export_pdf_def render_report_def first_page_eq draw_string_def page_count_def)

theorem empty_report_single_page_witness:
  "export_pdf engine plain_lib anonymous (JObj [(''ids'', JArr [JNum 99])]) [row1]
     = Response 200 (File
         [SetFont ''Helvetica-Bold'' 18,
          DrawString 50 742 ''Reporte de Solicitudes FUNDACITE'',
          SetFont ''Helvetica'' 10,
          DrawString 50 712 (''Fecha de generaci'' @ [CHR 0xC3, CHR 0xB3] @ ''n: 2024-01-01 00:00:00''),
          DrawString 50 692 ''No hay solicitudes para mostrar en este reporte.''])
   \<and> export_pdf engine plain_lib anonymous (JObj [(''export_all'', JBool True)]) []
     = export_pdf engine plain_lib anonymous (JObj [(''ids'', JArr [JNum 99])]) [row1]"
proof -
  have h1: "select_solicitudes engine (JObj [(''ids'', JArr [JNum 99])]) [row1] = Inr (Some [])"
    by (simp add: select_solicitudes_def and_then_def engine_def in_array_def row1_def)
  have h2: "select_solicitudes engine (JObj [(''export_all'', JBool True)]) [] = Inr (Some [])"
    by (simp add: select_solicitudes_def and_then_def)
  from empty_report_single_page[OF h1, of plain_lib anonymous]
    empty_report_single_page[OF h2, of plain_lib anonymous]
  show ?thesis by (simp add: plain_lib_def no_hay_solicitudes_def)
qed








end
